theory Spec2Isabelle
  imports Complex_Main
begin

section \<open>tgraph.py: rate-limited Telegraph accounts, the account pool, the gate size\<close>

text \<open>
  The module wraps the \<^verbatim>\<open>telegraph\<close> library. Everything outside the module (the remote
  API, the clock, other threads, the random generator) is an environment that answers the
  module's calls; the module's own state is passed explicitly.

  \<^item> Exceptions are values: a call returns \<open>exn + 'a\<close>, with \<open>Inl\<close> the exception raised.
  \<^item> Time is a rational number of seconds. \<^verbatim>\<open>time.time()\<close> reads the clock of the world,
    \<^verbatim>\<open>time.sleep(d)\<close> advances it by \<open>d\<close>, a remote call advances it by the duration the
    environment gives for that call.
  \<^item> The page arguments (\<^verbatim>\<open>*args, **kwargs\<close>) are only handed through to the remote call,
    whose answer the environment fixes; they are not part of the model.
\<close>

subsection \<open>Exceptions, accounts, the environment and the world\<close>

text \<open>
  \<^verbatim>\<open>telegraph.TelegraphException\<close> carries the message that \<^verbatim>\<open>str(e)\<close> returns;
  \<^verbatim>\<open>OverflowError\<close> and \<^verbatim>\<open>ValueError\<close> are Python's built-in exceptions;
  \<open>OtherException\<close> is any other subclass of \<^verbatim>\<open>Exception\<close> (a connection error or a
  timeout of \<^verbatim>\<open>requests\<close>, \<^verbatim>\<open>IndexError\<close>, ...), with its name.
\<close>

datatype exn =
    TelegraphException string
  | OverflowError
  | ValueError
  | OtherException string

text \<open>The page dict that the API returns is opaque to this module; it is kept as its url.\<close>

type_synonym page = string

text \<open>The fields of a \<^verbatim>\<open>Telegraph\<close> object that the module reads or writes.\<close>

record account =
  retries :: int
  last_run :: rat
  access_token :: "string option"

text \<open>\<^verbatim>\<open>ReaderWriterLock.owner\<close>: \<^verbatim>\<open>None\<close>, \<^verbatim>\<open>READER\<close> or \<^verbatim>\<open>WRITER\<close>.\<close>

datatype lock_owner = NoOwner | READER | WRITER

text \<open>
  The environment: the answer to the \<open>k\<close>-th call of each kind, counted from 0, with the time
  the call takes. \<open>owner_seen k\<close> is what the \<open>k\<close>-th read of \<^verbatim>\<open>self._lock.owner\<close> returns
  (the lock is shared with other threads), \<open>choice_index k n\<close> the index that the \<open>k\<close>-th
  \<^verbatim>\<open>random.choice\<close> draws for a sequence of length \<open>n\<close>.
\<close>

record env =
  page_reply :: "nat \<Rightarrow> rat \<times> (exn + page)"
  account_reply :: "nat \<Rightarrow> rat \<times> (exn + string)"
  info_reply :: "nat \<Rightarrow> rat \<times> (exn + unit)"
  owner_seen :: "nat \<Rightarrow> lock_owner"
  choice_index :: "nat \<Rightarrow> nat \<Rightarrow> nat"

text \<open>
  The world: the clock, how many calls of each kind have been made, and two logs:
  \<open>sleeps\<close>, the arguments of the \<^verbatim>\<open>time.sleep\<close> calls made so far, and \<open>starts\<close>, the
  clock at the start of each remote \<^verbatim>\<open>createPage\<close> call made so far.
\<close>

record world =
  clock :: rat
  n_page :: nat
  n_account :: nat
  n_info :: nat
  n_owner :: nat
  n_choice :: nat
  sleeps :: "rat list"
  starts :: "rat list"

subsection \<open>The string operations on the exception message\<close>

text \<open>\<^verbatim>\<open>s.startswith(p)\<close>.\<close>

definition startswith :: "string \<Rightarrow> string \<Rightarrow> bool" where
  "startswith s p = (take (length p) s = p)"

text \<open>\<^verbatim>\<open>s.split(c)\<close> for a separator of one character: never empty, \<^verbatim>\<open>''.split('_') == ['']\<close>.\<close>

fun split :: "string \<Rightarrow> char \<Rightarrow> string list" where
  "split [] c = [[]]"
| "split (x # xs) c =
     (if x = c then [] # split xs c
      else (x # hd (split xs c)) # tl (split xs c))"

text \<open>
  \<^verbatim>\<open>str.isspace\<close> on the characters below 256, and \<^verbatim>\<open>str.strip()\<close>.
\<close>

definition isspace :: "char \<Rightarrow> bool" where
  "isspace c = ((of_char c :: nat) \<in> {9, 10, 11, 12, 13, 28, 29, 30, 31, 32, 133, 160})"

definition strip :: "string \<Rightarrow> string" where
  "strip s = rev (dropWhile isspace (rev (dropWhile isspace s)))"

text \<open>
  \<^verbatim>\<open>int(s)\<close> in base 10, as CPython 3.11 does it on the characters below 256: the
  whitespace around the number is skipped (tab to carriage return, space, and the two
  whitespace characters above 127; not the separators 28 to 31, which \<^verbatim>\<open>int\<close> rejects
  although \<^verbatim>\<open>str.isspace\<close> holds of them), then comes one optional sign, then at least one
  and at most 4300 decimal digits. Anything else is a \<^verbatim>\<open>ValueError\<close> (\<open>None\<close> here). The
  underscores that \<^verbatim>\<open>int\<close> accepts between digits cannot occur in a piece of
  \<^verbatim>\<open>split('_')\<close> and are not modelled.
\<close>

definition int_space :: "char \<Rightarrow> bool" where
  "int_space c = ((of_char c :: nat) \<in> {9, 10, 11, 12, 13, 32, 133, 160})"

definition isdigit :: "char \<Rightarrow> bool" where
  "isdigit c = (48 \<le> (of_char c :: nat) \<and> (of_char c :: nat) \<le> 57)"

definition digits_value :: "string \<Rightarrow> nat" where
  "digits_value ds = foldl (\<lambda>n c. 10 * n + (of_char c - 48)) 0 ds"

definition unsigned_int :: "string \<Rightarrow> nat option" where
  "unsigned_int ds =
     (if ds \<noteq> [] \<and> list_all isdigit ds \<and> length ds \<le> 4300 then Some (digits_value ds)
      else None)"

definition py_int :: "string \<Rightarrow> int option" where
  "py_int s =
     (case rev (dropWhile int_space (rev (dropWhile int_space s))) of
        [] \<Rightarrow> None
      | c # r \<Rightarrow>
          if c = CHR ''-'' then map_option (\<lambda>n. - int n) (unsigned_int r)
          else if c = CHR ''+'' then map_option int (unsigned_int r)
          else map_option int (unsigned_int (c # r)))"

subsection \<open>Telegraph: one rate-limited account\<close>

text \<open>\<^verbatim>\<open>Telegraph.__init__\<close>: no retries yet, \<^verbatim>\<open>last_run\<close> is the time of construction.\<close>

definition Telegraph_init :: "string option \<Rightarrow> world \<Rightarrow> account" where
  "Telegraph_init token w = \<lparr>retries = 0, last_run = clock w, access_token = token\<rparr>"

text \<open>\<^verbatim>\<open>time.sleep(secs)\<close>: a negative argument raises \<^verbatim>\<open>ValueError\<close>.\<close>

definition sleep :: "rat \<Rightarrow> world \<Rightarrow> exn + world" where
  "sleep secs w =
     (if secs < 0 then Inl ValueError
      else Inr (w\<lparr>clock := clock w + secs, sleeps := sleeps w @ [secs]\<rparr>))"

text \<open>
  \<^verbatim>\<open>super().create_page(...)\<close>: one remote call. It starts at the current clock, takes the
  time the environment gives, and returns the page or raises.
\<close>

definition super_create_page :: "env \<Rightarrow> world \<Rightarrow> (exn + page) \<times> world" where
  "super_create_page E w =
     (snd (page_reply E (n_page w)),
      w\<lparr>clock := clock w + fst (page_reply E (n_page w)),
        n_page := n_page w + 1,
        starts := starts w @ [clock w]\<rparr>)"

text \<open>
  \<^verbatim>\<open>telegraph.Telegraph.create_account(...)\<close>: one remote call; on success the object's
  access token is replaced by the token of the new account.
\<close>

definition create_account :: "env \<Rightarrow> account \<Rightarrow> world \<Rightarrow> (exn + unit) \<times> account \<times> world" where
  "create_account E a w =
     (let w1 = w\<lparr>clock := clock w + fst (account_reply E (n_account w)),
                  n_account := n_account w + 1\<rparr>
      in case snd (account_reply E (n_account w)) of
           Inl e \<Rightarrow> (Inl e, a, w1)
         | Inr token \<Rightarrow> (Inr (), a\<lparr>access_token := Some token\<rparr>, w1))"

text \<open>
  \<^verbatim>\<open>Telegraph._create_page\<close> (lines 66-72): sleep until one second has passed since
  \<^verbatim>\<open>last_run\<close>, make the remote call, and record \<^verbatim>\<open>last_run\<close> when it returned a page.
  When the remote call raises, \<^verbatim>\<open>last_run\<close> is not assigned.
\<close>

definition Telegraph__create_page :: "env \<Rightarrow> account \<Rightarrow> world \<Rightarrow> (exn + page) \<times> account \<times> world" where
  "Telegraph__create_page E a w =
     (case sleep (max (1 - (clock w - last_run a)) 0) w of
        Inl e \<Rightarrow> (Inl e, a, w)
      | Inr w1 \<Rightarrow>
          (case super_create_page E w1 of
             (Inr ret, w2) \<Rightarrow> (Inr ret, a\<lparr>last_run := clock w2\<rparr>, w2)
           | (Inl e, w2) \<Rightarrow> (Inl e, a, w2)))"

text \<open>
  Lines 53-61, after \<^verbatim>\<open>self.retries += 1\<close>: read the owner of the lock; unless it is
  \<^verbatim>\<open>WRITER\<close>, take the write lock and either create a new account (\<^verbatim>\<open>retry_after >= 60\<close>)
  or sleep \<^verbatim>\<open>retry_after + 1\<close> seconds. An exception raised inside leaves through
  \<^verbatim>\<open>create_page\<close>.
\<close>

definition flood_block :: "env \<Rightarrow> int \<Rightarrow> account \<Rightarrow> world \<Rightarrow> (exn + unit) \<times> account \<times> world" where
  "flood_block E retry_after a w =
     (let w1 = w\<lparr>n_owner := n_owner w + 1\<rparr> in
      if owner_seen E (n_owner w) \<noteq> WRITER then
        (if retry_after \<ge> 60 then create_account E a w1
         else (case sleep (of_int retry_after + 1) w1 of
                 Inl e \<Rightarrow> (Inl e, a, w1)
               | Inr w2 \<Rightarrow> (Inr (), a, w2)))
      else (Inr (), a, w1))"

text \<open>
  \<^verbatim>\<open>Telegraph.create_page\<close> (lines 35-64). The recursive call of line 62 is made with
  \<^verbatim>\<open>retries\<close> already incremented, and the function returns at once when
  \<^verbatim>\<open>retries >= 3\<close>, so \<open>3 - retries\<close> decreases.
\<close>

function Telegraph_create_page :: "env \<Rightarrow> account \<Rightarrow> world \<Rightarrow> (exn + page) \<times> account \<times> world" where
  "Telegraph_create_page E a w =
     (if retries a \<ge> 3 then (Inl OverflowError, a\<lparr>retries := 0\<rparr>, w)
      else
        (case Telegraph__create_page E a w of
           (Inr page, a1, w1) \<Rightarrow> (Inr page, a1\<lparr>retries := 0\<rparr>, w1)
         | (Inl e, a1, w1) \<Rightarrow>
             (case e of
                TelegraphException e_msg \<Rightarrow>
                  if startswith e_msg ''FLOOD_WAIT_'' then
                    (case py_int (last (split e_msg CHR ''_'')) of
                       None \<Rightarrow> (Inl ValueError, a1, w1)
                     | Some retry_after \<Rightarrow>
                         (case flood_block E retry_after (a1\<lparr>retries := retries a1 + 1\<rparr>) w1 of
                            (Inl e2, a2, w2) \<Rightarrow> (Inl e2, a2, w2)
                          | (Inr u, a2, w2) \<Rightarrow> Telegraph_create_page E a2 w2))
                  else (Inl e, a1, w1)
              | _ \<Rightarrow> (Inl e, a1, w1))))"
  by pat_completeness auto
termination
proof (relation "measure (\<lambda>(E, a, w). nat (3 - retries a))")
  show "wf (measure (\<lambda>(E, a, w). nat (3 - retries a)))" by simp
next
  fix E a w x y a1 w1 retry_after xb yb a2 w2
  assume small: "\<not> 3 \<le> retries a"
    and attempt: "(x, y) = Telegraph__create_page E a w" "(a1, w1) = y"
    and block: "(xb, yb) = flood_block E retry_after (a1\<lparr>retries := retries a1 + 1\<rparr>) w1"
      "(a2, w2) = yb"
  from attempt have "retries a1 = retries a"
    by (auto simp: Telegraph__create_page_def sleep_def super_create_page_def
        split: sum.splits if_splits)
  moreover from block have "retries a2 = retries a1 + 1"
    by (auto simp: flood_block_def create_account_def sleep_def Let_def
        split: sum.splits if_splits)
  ultimately show "((E, a2, w2), (E, a, w)) \<in> measure (\<lambda>(E, a, w). nat (3 - retries a))"
    using small by simp
qed

text \<open>
  What lines 47-50 make of an exception of the remote call: \<open>is_flood e\<close> is the test of
  line 49, \<open>flood_wait e\<close> the value \<^verbatim>\<open>retry_after\<close> of line 50 when the test holds and
  \<^verbatim>\<open>int\<close> accepts the last piece of the message.
\<close>

fun is_flood :: "exn \<Rightarrow> bool" where
  "is_flood (TelegraphException e_msg) = startswith e_msg ''FLOOD_WAIT_''"
| "is_flood _ = False"

fun flood_wait :: "exn \<Rightarrow> int option" where
  "flood_wait (TelegraphException e_msg) =
     (if startswith e_msg ''FLOOD_WAIT_'' then py_int (last (split e_msg CHR ''_'')) else None)"
| "flood_wait _ = None"

text \<open>
  The world after the sleep of line 69, and after the remote call of line 70 that follows
  it: what one attempt of \<^verbatim>\<open>_create_page\<close> leaves behind, whatever the call returns.
\<close>

definition throttled :: "account \<Rightarrow> world \<Rightarrow> world" where
  "throttled a w =
     w\<lparr>clock := clock w + max (1 - (clock w - last_run a)) 0,
       sleeps := sleeps w @ [max (1 - (clock w - last_run a)) 0]\<rparr>"

definition attempted :: "env \<Rightarrow> account \<Rightarrow> world \<Rightarrow> world" where
  "attempted E a w = snd (super_create_page E (throttled a w))"



subsection \<open>API: the pool of accounts\<close>

text \<open>\<^verbatim>\<open>account.get_account_info()\<close>: one remote call, whose result is not used.\<close>

definition get_account_info :: "env \<Rightarrow> world \<Rightarrow> (exn + unit) \<times> world" where
  "get_account_info E w =
     (snd (info_reply E (n_info w)),
      w\<lparr>clock := clock w + fst (info_reply E (n_info w)), n_info := n_info w + 1\<rparr>)"

text \<open>
  The body of the \<^verbatim>\<open>try\<close> of lines 84-88, up to the \<^verbatim>\<open>append\<close>: a token that is not
  60 characters long is replaced by a new account first, then the account is probed.
\<close>

definition probe :: "env \<Rightarrow> string \<Rightarrow> account \<Rightarrow> world \<Rightarrow> (exn + unit) \<times> account \<times> world" where
  "probe E token a w =
     (case (if length token \<noteq> 60 then create_account E a w else (Inr (), a, w)) of
        (Inl e, a1, w1) \<Rightarrow> (Inl e, a1, w1)
      | (Inr u, a1, w1) \<Rightarrow>
          (case get_account_info E w1 of
             (Inl e, w2) \<Rightarrow> (Inl e, a1, w2)
           | (Inr u2, w2) \<Rightarrow> (Inr (), a1, w2)))"

text \<open>
  One round of the loop of lines 80-99: the account that is appended, if any. A
  \<^verbatim>\<open>TelegraphException\<close> of the \<^verbatim>\<open>try\<close> leads to \<^verbatim>\<open>create_account\<close> (lines 90-97), any
  other exception only to a log line (lines 98-99).
\<close>

definition set_up :: "env \<Rightarrow> string \<Rightarrow> world \<Rightarrow> account option \<times> world" where
  "set_up E token0 w =
     (let token = strip token0;
          account = Telegraph_init (Some token) w
      in case probe E token account w of
           (Inr u, a1, w1) \<Rightarrow> (Some a1, w1)
         | (Inl e, a1, w1) \<Rightarrow>
             (case e of
                TelegraphException e_msg \<Rightarrow>
                  (case create_account E a1 w1 of
                     (Inr u, a2, w2) \<Rightarrow> (Some a2, w2)
                   | (Inl e2, a2, w2) \<Rightarrow> (None, w2))
              | _ \<Rightarrow> (None, w1)))"

text \<open>The object: its list \<^verbatim>\<open>_accounts\<close>.\<close>

record API =
  accounts :: "account list"

text \<open>The argument \<^verbatim>\<open>tokens: Union[str, List[str]]\<close>.\<close>

datatype tokens = Str string | Strs "string list"

fun API_loop :: "env \<Rightarrow> string list \<Rightarrow> account list \<Rightarrow> world \<Rightarrow> account list \<times> world" where
  "API_loop E [] accs w = (accs, w)"
| "API_loop E (token # rest) accs w =
     (case set_up E token w of
        (Some a, w1) \<Rightarrow> API_loop E rest (accs @ [a]) w1
      | (None, w1) \<Rightarrow> API_loop E rest accs w1)"

definition API_init :: "env \<Rightarrow> tokens \<Rightarrow> world \<Rightarrow> API \<times> world" where
  "API_init E ts w =
     (case API_loop E (case ts of Str t \<Rightarrow> [t] | Strs l \<Rightarrow> l) [] w of
        (accs, w1) \<Rightarrow> (\<lparr>accounts = accs\<rparr>, w1))"

definition valid :: "API \<Rightarrow> bool" where
  "valid api = (accounts api \<noteq> [])"

definition count :: "API \<Rightarrow> nat" where
  "count api = length (accounts api)"

text \<open>
  \<^verbatim>\<open>API.create_page\<close> (lines 109-113). \<^verbatim>\<open>random.choice(seq)\<close> is \<^verbatim>\<open>seq[i]\<close> for the index
  \<open>i\<close> it draws; an index outside the list would raise \<^verbatim>\<open>IndexError\<close>. The account chosen
  is an object of the list, so what \<^verbatim>\<open>create_page\<close> does to it is seen in the list.
\<close>

definition API_create_page :: "env \<Rightarrow> API \<Rightarrow> world \<Rightarrow> (exn + page) \<times> API \<times> world" where
  "API_create_page E api w =
     (if accounts api = [] then (Inl (TelegraphException ''Telegraph token no set!''), api, w)
      else
        (let i = choice_index E (n_choice w) (length (accounts api));
             w1 = w\<lparr>n_choice := n_choice w + 1\<rparr>
         in if i < length (accounts api) then
              (case Telegraph_create_page E (accounts api ! i) w1 of
                 (r, a1, w2) \<Rightarrow> (r, api\<lparr>accounts := (accounts api)[i := a1]\<rparr>, w2))
            else (Inl (OtherException ''IndexError''), api, w1)))"

subsection \<open>The module level: the pool and the size of the semaphore\<close>

text \<open>
  Lines 116-121, with \<^verbatim>\<open>env.TELEGRAPH_TOKEN\<close> as a parameter (\<open>None\<close> or a string; both
  \<^verbatim>\<open>None\<close> and the empty string are false in Python): \<^verbatim>\<open>api\<close> is \<^verbatim>\<open>None\<close> unless the
  token is set and the pool built from it is valid.
\<close>

definition module_api :: "env \<Rightarrow> string option \<Rightarrow> world \<Rightarrow> API option \<times> world" where
  "module_api E TELEGRAPH_TOKEN w =
     (case TELEGRAPH_TOKEN of
        None \<Rightarrow> (None, w)
      | Some t \<Rightarrow>
          if t = [] then (None, w)
          else (case API_init E (Strs (split t CHR '','')) w of
                  (api, w1) \<Rightarrow> if \<not> valid api then (None, w1) else (Some api, w1)))"

text \<open>
  Line 132, \<^verbatim>\<open>api.count if api else 10\<close>; an \<^verbatim>\<open>API\<close> object is true, \<^verbatim>\<open>None\<close> is false.
  Line 135 makes the semaphore with this many permits.
\<close>

definition max_concurrency :: "API option \<Rightarrow> nat" where
  "max_concurrency api = (case api of Some p \<Rightarrow> count p | None \<Rightarrow> 10)"

subsection \<open>A caller, and scenarios\<close>


text \<open>Times that are at least one second apart, each from the next.\<close>

fun spaced :: "rat list \<Rightarrow> bool" where
  "spaced (s # t # ts) = (s + 1 \<le> t \<and> spaced (t # ts))"
| "spaced _ = True"

text \<open>A world in which nothing has happened yet, and a new account made in it.\<close>

definition world0 :: world where
  "world0 = \<lparr>clock = 0, n_page = 0, n_account = 0, n_info = 0, n_owner = 0, n_choice = 0,
             sleeps = [], starts = []\<rparr>"

definition account0 :: account where
  "account0 = Telegraph_init (Some ''t'') world0"

text \<open>
  An environment given by the answers to the remote \<^verbatim>\<open>createPage\<close> calls and to the
  \<^verbatim>\<open>createAccount\<close> calls, the last answer of each list repeated for ever; every remote call
  takes half a second, nobody else holds the lock, and \<^verbatim>\<open>random.choice\<close> draws the index
  \<open>k mod n\<close> at its \<open>k\<close>-th call.
\<close>

definition scripted :: "(exn + page) list \<Rightarrow> (exn + string) list \<Rightarrow> env" where
  "scripted pages tokens =
     \<lparr>page_reply = (\<lambda>k. (1 / 2, pages ! min k (length pages - 1))),
      account_reply = (\<lambda>k. (1 / 2, tokens ! min k (length tokens - 1))),
      info_reply = (\<lambda>k. (1 / 2, Inr ())),
      owner_seen = (\<lambda>k. NoOwner),
      choice_index = (\<lambda>k n. k mod n)\<rparr>"

subsection \<open>Which entries the pool keeps, in words\<close>

text \<open>
  The answers that decide one round of the loop of \<^verbatim>\<open>API.__init__\<close>: \<open>probe\<close> is the answer
  to \<^verbatim>\<open>get_account_info\<close>, \<open>first\<close> and \<open>second\<close> are the answers to the first and the
  second \<^verbatim>\<open>create_account\<close> call of the round. A call has \<open>returned\<close> or it has raised, a
  \<^verbatim>\<open>TelegraphException\<close> or something else.
\<close>

definition returned :: "exn + 'a \<Rightarrow> bool" where
  "returned r = (case r of Inr x \<Rightarrow> True | Inl e \<Rightarrow> False)"






section \<open>Properties\<close>

subsection \<open>One attempt, and one round of \<^verbatim>\<open>create_page\<close>\<close>

text \<open>
  The equation of \<^verbatim>\<open>create_page\<close> calls itself, so it is unfolded by hand, one round at a
  time.
\<close>

declare Telegraph_create_page.simps [simp del]


lemma attempted_fields:
  "n_page (attempted E a w) = n_page w + 1"
  "n_account (attempted E a w) = n_account w"
  "n_owner (attempted E a w) = n_owner w"
  "n_info (attempted E a w) = n_info w"
  "n_choice (attempted E a w) = n_choice w"
  "starts (attempted E a w) = starts w @ [clock w + max (1 - (clock w - last_run a)) 0]"
  "sleeps (attempted E a w) = sleeps w @ [max (1 - (clock w - last_run a)) 0]"
  "clock (attempted E a w) =
     clock w + max (1 - (clock w - last_run a)) 0 + fst (page_reply E (n_page w))"
  by (simp_all add: attempted_def throttled_def super_create_page_def)

lemma Telegraph__create_page_eq:
  "Telegraph__create_page E a w =
     (case snd (page_reply E (n_page w)) of
        Inr ret \<Rightarrow> (Inr ret, a\<lparr>last_run := clock (attempted E a w)\<rparr>, attempted E a w)
      | Inl e \<Rightarrow> (Inl e, a, attempted E a w))"
  by (simp add: Telegraph__create_page_def sleep_def attempted_def throttled_def
      super_create_page_def split: sum.splits)

lemma create_page_overflow:
  "3 \<le> retries a \<Longrightarrow> Telegraph_create_page E a w = (Inl OverflowError, a\<lparr>retries := 0\<rparr>, w)"
  by (simp add: Telegraph_create_page.simps)

lemma create_page_success:
  "retries a < 3 \<Longrightarrow> snd (page_reply E (n_page w)) = Inr p \<Longrightarrow>
   Telegraph_create_page E a w =
     (Inr p, a\<lparr>last_run := clock (attempted E a w), retries := 0\<rparr>, attempted E a w)"
  by (simp add: Telegraph_create_page.simps [of E a w] Telegraph__create_page_eq)

lemma create_page_other:
  "retries a < 3 \<Longrightarrow> snd (page_reply E (n_page w)) = Inl e \<Longrightarrow> \<not> is_flood e \<Longrightarrow>
   Telegraph_create_page E a w = (Inl e, a, attempted E a w)"
  by (cases e) (simp_all add: Telegraph_create_page.simps [of E a w] Telegraph__create_page_eq)

lemma flood_wait_is_flood: "flood_wait e = Some W \<Longrightarrow> is_flood e"
  by (cases e) (simp_all split: if_splits)

lemma create_page_flood:
  "retries a < 3 \<Longrightarrow> snd (page_reply E (n_page w)) = Inl e \<Longrightarrow> flood_wait e = Some W \<Longrightarrow>
   Telegraph_create_page E a w =
     (case flood_block E W (a\<lparr>retries := retries a + 1\<rparr>) (attempted E a w) of
        (Inl e2, a2, w2) \<Rightarrow> (Inl e2, a2, w2)
      | (Inr u, a2, w2) \<Rightarrow> Telegraph_create_page E a2 w2)"
  by (cases e)
    (simp_all add: Telegraph_create_page.simps [of E a w] Telegraph__create_page_eq
      split: if_splits)

lemma flood_block_held:
  "owner_seen E (n_owner w) = WRITER \<Longrightarrow>
   flood_block E W a w = (Inr (), a, w\<lparr>n_owner := n_owner w + 1\<rparr>)"
  by (simp add: flood_block_def)

lemma flood_block_sleep:
  "owner_seen E (n_owner w) \<noteq> WRITER \<Longrightarrow> 0 \<le> W \<Longrightarrow> W < 60 \<Longrightarrow>
   flood_block E W a w =
     (Inr (), a, w\<lparr>n_owner := n_owner w + 1, clock := clock w + (of_int W + 1),
                    sleeps := sleeps w @ [of_int W + 1]\<rparr>)"
  by (simp add: flood_block_def sleep_def Let_def)

lemma flood_block_rotate:
  "owner_seen E (n_owner w) \<noteq> WRITER \<Longrightarrow> 60 \<le> W \<Longrightarrow>
   flood_block E W a w = create_account E a (w\<lparr>n_owner := n_owner w + 1\<rparr>)"
  by (simp add: flood_block_def Let_def)

lemma create_account_ok:
  "snd (account_reply E (n_account w)) = Inr t \<Longrightarrow>
   create_account E a w =
     (Inr (), a\<lparr>access_token := Some t\<rparr>,
      w\<lparr>clock := clock w + fst (account_reply E (n_account w)), n_account := n_account w + 1\<rparr>)"
  by (simp add: create_account_def Let_def)

lemma create_account_fail:
  "snd (account_reply E (n_account w)) = Inl e \<Longrightarrow>
   create_account E a w =
     (Inl e, a,
      w\<lparr>clock := clock w + fst (account_reply E (n_account w)), n_account := n_account w + 1\<rparr>)"
  by (simp add: create_account_def Let_def)

text \<open>
  A round that ends in a flood-control error hands over to the next round with the counter
  one higher; when every remaining round ends so, the call ends in \<^verbatim>\<open>OverflowError\<close>.
\<close>

lemma flood_round_short:
  assumes "retries a < 3"
    and "snd (page_reply E (n_page w)) = Inl e"
    and "flood_wait e = Some (int W)"
    and "W < 60"
  shows "\<exists>w'. Telegraph_create_page E a w = Telegraph_create_page E (a\<lparr>retries := retries a + 1\<rparr>) w'
    \<and> n_page w' = n_page w + 1"
proof (cases "owner_seen E (n_owner w) = WRITER")
  case True
  let ?w = "(attempted E a w)\<lparr>n_owner := n_owner w + 1\<rparr>"
  from True assms
  have "Telegraph_create_page E a w = Telegraph_create_page E (a\<lparr>retries := retries a + 1\<rparr>) ?w"
    by (simp add: create_page_flood flood_block_held attempted_fields)
  moreover have "n_page ?w = n_page w + 1"
    by (simp add: attempted_fields)
  ultimately show ?thesis by blast
next
  case False
  let ?w = "(attempted E a w)\<lparr>n_owner := n_owner w + 1,
    clock := clock (attempted E a w) + (of_int (int W) + 1),
    sleeps := sleeps (attempted E a w) @ [of_int (int W) + 1]\<rparr>"
  from False assms
  have "Telegraph_create_page E a w = Telegraph_create_page E (a\<lparr>retries := retries a + 1\<rparr>) ?w"
    by (simp add: create_page_flood flood_block_sleep attempted_fields)
  moreover have "n_page ?w = n_page w + 1"
    by (simp add: attempted_fields)
  ultimately show ?thesis by blast
qed

lemma flood_round:
  assumes "retries a < 3"
    and "snd (page_reply E (n_page w)) = Inl e"
    and "flood_wait e = Some (int W)"
    and "\<forall>j. \<exists>t. snd (account_reply E j) = Inr t"
  shows "\<exists>a' w'. Telegraph_create_page E a w = Telegraph_create_page E a' w'
    \<and> retries a' = retries a + 1 \<and> n_page w' = n_page w + 1"
proof (cases "owner_seen E (n_owner w) \<noteq> WRITER \<and> 60 \<le> W")
  case False
  then have "owner_seen E (n_owner w) = WRITER \<or> W < 60" by auto
  then have "\<exists>w'. Telegraph_create_page E a w =
      Telegraph_create_page E (a\<lparr>retries := retries a + 1\<rparr>) w' \<and> n_page w' = n_page w + 1"
  proof
    assume held: "owner_seen E (n_owner w) = WRITER"
    let ?w = "(attempted E a w)\<lparr>n_owner := n_owner w + 1\<rparr>"
    from held assms(1-3)
    have "Telegraph_create_page E a w =
        Telegraph_create_page E (a\<lparr>retries := retries a + 1\<rparr>) ?w"
      by (simp add: create_page_flood flood_block_held attempted_fields)
    moreover have "n_page ?w = n_page w + 1"
      by (simp add: attempted_fields)
    ultimately show ?thesis by blast
  next
    assume "W < 60"
    with assms(1-3) show ?thesis by (rule flood_round_short)
  qed
  then obtain w' where "Telegraph_create_page E a w =
      Telegraph_create_page E (a\<lparr>retries := retries a + 1\<rparr>) w'" "n_page w' = n_page w + 1"
    by blast
  moreover have "retries (a\<lparr>retries := retries a + 1\<rparr>) = retries a + 1" by simp
  ultimately show ?thesis by blast
next
  case True
  from assms(4) obtain t where t: "snd (account_reply E (n_account w)) = Inr t"
    by blast
  let ?a = "a\<lparr>retries := retries a + 1, access_token := Some t\<rparr>"
  let ?w = "(attempted E a w)\<lparr>n_owner := n_owner w + 1,
    clock := clock (attempted E a w) + fst (account_reply E (n_account w)),
    n_account := n_account w + 1\<rparr>"
  from True t assms(1-3)
  have "Telegraph_create_page E a w = Telegraph_create_page E ?a ?w"
    by (simp add: create_page_flood flood_block_rotate create_account_ok attempted_fields)
  moreover have "retries ?a = retries a + 1" "n_page ?w = n_page w + 1"
    by (simp_all add: attempted_fields)
  ultimately show ?thesis by blast
qed

lemma floods_overflow:
  assumes "\<forall>j. \<exists>t. snd (account_reply E j) = Inr t"
    and "nat (3 - retries a) = n"
    and "\<forall>j<n. \<exists>e W. snd (page_reply E (n_page w + j)) = Inl e \<and> flood_wait e = Some (int W)"
  shows "\<exists>a' w'. Telegraph_create_page E a w = (Inl OverflowError, a', w')
    \<and> retries a' = 0 \<and> n_page w' = n_page w + n"
  using assms(2,3)
proof (induction n arbitrary: a w)
  case 0
  then show ?case by (simp add: create_page_overflow)
next
  case (Suc n)
  from Suc.prems(1) have small: "retries a < 3" by simp
  from Suc.prems(2) obtain e W
    where "snd (page_reply E (n_page w)) = Inl e" "flood_wait e = Some (int W)"
    by force
  with small assms(1) obtain a1 w1
    where step: "Telegraph_create_page E a w = Telegraph_create_page E a1 w1"
      and a1: "retries a1 = retries a + 1" and w1: "n_page w1 = n_page w + 1"
    using flood_round by blast
  from a1 Suc.prems(1) have "nat (3 - retries a1) = n" by simp
  moreover from w1 Suc.prems(2)
  have "\<forall>j<n. \<exists>e W. snd (page_reply E (n_page w1 + j)) = Inl e \<and> flood_wait e = Some (int W)"
    by (metis Suc_less_eq add.assoc plus_1_eq_Suc)
  ultimately obtain a' w' where "Telegraph_create_page E a1 w1 = (Inl OverflowError, a', w')"
    "retries a' = 0" "n_page w' = n_page w1 + n"
    using Suc.IH by blast
  with step w1 show ?case by simp
qed

subsection \<open>Errors that are not flood control\<close>

text \<open>
  C5. When the remote call of an attempt raises an exception that is not a flood-control
  error (a \<^verbatim>\<open>TelegraphException\<close> whose message does not start with \<^verbatim>\<open>FLOOD_WAIT_\<close>, or any
  other exception), \<^verbatim>\<open>create_page\<close> raises that same exception, leaves the account as it
  was, and has made exactly one remote call: there is no retry. An attempt is made when
  \<^verbatim>\<open>retries < 3\<close> on entry.
\<close>

theorem other_error_propagates:
  assumes "retries a < 3"
    and "snd (page_reply E (n_page w)) = Inl e"
    and "\<not> is_flood e"
  shows "fst (Telegraph_create_page E a w) = Inl e
    \<and> fst (snd (Telegraph_create_page E a w)) = a
    \<and> n_page (snd (snd (Telegraph_create_page E a w))) = n_page w + 1"
  using assms by (simp add: create_page_other attempted_fields)

theorem other_error_propagates_witness:
  "retries account0 < 3
   \<and> snd (page_reply (scripted [Inl (TelegraphException ''PAGE_SAVE_FAILED'')] [Inr ''n''])
        (n_page world0)) = Inl (TelegraphException ''PAGE_SAVE_FAILED'')
   \<and> \<not> is_flood (TelegraphException ''PAGE_SAVE_FAILED'')
   \<and> fst (Telegraph_create_page
        (scripted [Inl (TelegraphException ''PAGE_SAVE_FAILED'')] [Inr ''n''])
        account0 world0) = Inl (TelegraphException ''PAGE_SAVE_FAILED'')
   \<and> fst (snd (Telegraph_create_page
        (scripted [Inl (TelegraphException ''PAGE_SAVE_FAILED'')] [Inr ''n''])
        account0 world0)) = account0
   \<and> n_page (snd (snd (Telegraph_create_page
        (scripted [Inl (TelegraphException ''PAGE_SAVE_FAILED'')] [Inr ''n''])
        account0 world0))) = n_page world0 + 1"
proof -
  have h1: "retries account0 < 3"
    by (simp add: account0_def Telegraph_init_def)
  have h2: "snd (page_reply (scripted [Inl (TelegraphException ''PAGE_SAVE_FAILED'')] [Inr ''n''])
      (n_page world0)) = Inl (TelegraphException ''PAGE_SAVE_FAILED'')"
    by (simp add: scripted_def world0_def)
  have h3: "\<not> is_flood (TelegraphException ''PAGE_SAVE_FAILED'')"
    by (simp add: startswith_def)
  show ?thesis
    using h1 h2 h3 other_error_propagates [OF h1 h2 h3] by simp
qed

subsection \<open>Flood control: retrying\<close>

text \<open>The definitions that a concrete run unfolds.\<close>

lemmas run_defs = Telegraph_create_page.simps Telegraph__create_page_def sleep_def
  super_create_page_def flood_block_def create_account_def scripted_def account0_def
  world0_def Telegraph_init_def startswith_def py_int_def int_space_def strip_def isspace_def
  unsigned_int_def isdigit_def digits_value_def Let_def

text \<open>
  C2. An account with \<^verbatim>\<open>retries = 0\<close> whose first two attempts end in flood-control errors
  with waits \<open>W1, W2 < 60\<close> and whose third attempt returns a page: \<^verbatim>\<open>create_page\<close> returns
  that page and no exception, after three remote calls; \<^verbatim>\<open>retries\<close> is 0 again and
  \<^verbatim>\<open>last_run\<close> is the time at which the third remote call returned.
\<close>

theorem two_floods_then_page:
  assumes "retries a = 0"
    and "snd (page_reply E (n_page w)) = Inl e1" and "flood_wait e1 = Some (int W1)" and "W1 < 60"
    and "snd (page_reply E (n_page w + 1)) = Inl e2" and "flood_wait e2 = Some (int W2)" and "W2 < 60"
    and "snd (page_reply E (n_page w + 2)) = Inr p"
  shows "fst (Telegraph_create_page E a w) = Inr p
    \<and> retries (fst (snd (Telegraph_create_page E a w))) = 0
    \<and> last_run (fst (snd (Telegraph_create_page E a w)))
        = clock (snd (snd (Telegraph_create_page E a w)))
    \<and> n_page (snd (snd (Telegraph_create_page E a w))) = n_page w + 3"
proof -
  from assms(1-4) obtain w1
    where r1: "Telegraph_create_page E a w = Telegraph_create_page E (a\<lparr>retries := retries a + 1\<rparr>) w1"
      and w1: "n_page w1 = n_page w + 1"
    using flood_round_short [of a E w e1 W1] by auto
  let ?a1 = "a\<lparr>retries := retries a + 1\<rparr>"
  from assms(1) have "retries ?a1 < 3" by simp
  moreover from assms(5) w1 have "snd (page_reply E (n_page w1)) = Inl e2" by simp
  ultimately obtain w2
    where r2: "Telegraph_create_page E ?a1 w1 = Telegraph_create_page E (?a1\<lparr>retries := retries ?a1 + 1\<rparr>) w2"
      and w2: "n_page w2 = n_page w1 + 1"
    using flood_round_short [of ?a1 E w1 e2 W2] assms(6,7) by blast
  let ?a2 = "?a1\<lparr>retries := retries ?a1 + 1\<rparr>"
  from assms(1) have "retries ?a2 < 3" by simp
  moreover from assms(8) w1 w2 have "snd (page_reply E (n_page w2)) = Inr p"
    by (simp add: numeral_2_eq_2)
  ultimately have "Telegraph_create_page E ?a2 w2 =
      (Inr p, ?a2\<lparr>last_run := clock (attempted E ?a2 w2), retries := 0\<rparr>, attempted E ?a2 w2)"
    by (rule create_page_success)
  with r1 r2 w1 w2 show ?thesis
    by (simp add: attempted_fields)
qed

theorem two_floods_then_page_witness:
  "retries account0 = 0
   \<and> flood_wait (TelegraphException ''FLOOD_WAIT_5'') = Some (int 5) \<and> (5::nat) < 60
   \<and> flood_wait (TelegraphException ''FLOOD_WAIT_7'') = Some (int 7) \<and> (7::nat) < 60
   \<and> fst (Telegraph_create_page
        (scripted [Inl (TelegraphException ''FLOOD_WAIT_5''),
                   Inl (TelegraphException ''FLOOD_WAIT_7''), Inr ''url''] [Inr ''n''])
        account0 world0) = Inr ''url''
   \<and> retries (fst (snd (Telegraph_create_page
        (scripted [Inl (TelegraphException ''FLOOD_WAIT_5''),
                   Inl (TelegraphException ''FLOOD_WAIT_7''), Inr ''url''] [Inr ''n''])
        account0 world0))) = 0
   \<and> last_run (fst (snd (Telegraph_create_page
        (scripted [Inl (TelegraphException ''FLOOD_WAIT_5''),
                   Inl (TelegraphException ''FLOOD_WAIT_7''), Inr ''url''] [Inr ''n''])
        account0 world0)))
      = clock (snd (snd (Telegraph_create_page
        (scripted [Inl (TelegraphException ''FLOOD_WAIT_5''),
                   Inl (TelegraphException ''FLOOD_WAIT_7''), Inr ''url''] [Inr ''n''])
        account0 world0)))
   \<and> n_page (snd (snd (Telegraph_create_page
        (scripted [Inl (TelegraphException ''FLOOD_WAIT_5''),
                   Inl (TelegraphException ''FLOOD_WAIT_7''), Inr ''url''] [Inr ''n''])
        account0 world0))) = n_page world0 + 3"
proof -
  let ?E = "scripted [Inl (TelegraphException ''FLOOD_WAIT_5''),
                   Inl (TelegraphException ''FLOOD_WAIT_7''), Inr ''url''] [Inr ''n'']"
  have h1: "retries account0 = 0"
    by (simp add: account0_def Telegraph_init_def)
  have h2: "snd (page_reply ?E (n_page world0)) = Inl (TelegraphException ''FLOOD_WAIT_5'')"
    by (simp add: scripted_def world0_def)
  have h3: "flood_wait (TelegraphException ''FLOOD_WAIT_5'') = Some (int 5)"
    by (simp add: startswith_def py_int_def int_space_def strip_def isspace_def unsigned_int_def
        isdigit_def digits_value_def)
  have h4: "(5::nat) < 60" by simp
  have h5: "snd (page_reply ?E (n_page world0 + 1)) = Inl (TelegraphException ''FLOOD_WAIT_7'')"
    by (simp add: scripted_def world0_def)
  have h6: "flood_wait (TelegraphException ''FLOOD_WAIT_7'') = Some (int 7)"
    by (simp add: startswith_def py_int_def int_space_def strip_def isspace_def unsigned_int_def
        isdigit_def digits_value_def)
  have h7: "(7::nat) < 60" by simp
  have h8: "snd (page_reply ?E (n_page world0 + 2)) = Inr ''url''"
    by (simp add: scripted_def world0_def)
  show ?thesis
    using h1 h3 h4 h6 h7 two_floods_then_page [OF h1 h2 h3 h4 h5 h6 h7 h8] by simp
qed

text \<open>
  C1, as the code has it. When every attempt of one \<^verbatim>\<open>create_page\<close> call ends in a
  flood-control error (three attempts when \<^verbatim>\<open>retries\<close> is 0 on entry) and every
  \<^verbatim>\<open>create_account\<close> call that a wait of 60 or more leads to returns a new token, the call
  raises \<^verbatim>\<open>OverflowError\<close> and leaves \<^verbatim>\<open>retries = 0\<close>, the value of a new account, so
  the next call starts at its first attempt.
\<close>

theorem floods_end_in_overflow:
  assumes "0 \<le> retries a"
    and "\<forall>j<3. \<exists>e W. snd (page_reply E (n_page w + j)) = Inl e \<and> flood_wait e = Some (int W)"
    and "\<forall>j. \<exists>t. snd (account_reply E j) = Inr t"
  shows "fst (Telegraph_create_page E a w) = Inl OverflowError
    \<and> retries (fst (snd (Telegraph_create_page E a w))) = 0
    \<and> n_page (snd (snd (Telegraph_create_page E a w))) = n_page w + nat (3 - retries a)"
proof -
  from assms(1) have "nat (3 - retries a) \<le> 3" by simp
  with assms(2)
  have "\<forall>j<nat (3 - retries a).
      \<exists>e W. snd (page_reply E (n_page w + j)) = Inl e \<and> flood_wait e = Some (int W)"
    by auto
  with assms(3) obtain a' w'
    where "Telegraph_create_page E a w = (Inl OverflowError, a', w')"
      "retries a' = 0" "n_page w' = n_page w + nat (3 - retries a)"
    using floods_overflow [of E a "nat (3 - retries a)" w] by blast
  then show ?thesis by simp
qed

theorem floods_end_in_overflow_witness:
  "0 \<le> retries account0
   \<and> fst (Telegraph_create_page
        (scripted [Inl (TelegraphException ''FLOOD_WAIT_5'')] [Inr ''n'']) account0 world0)
       = Inl OverflowError
   \<and> retries (fst (snd (Telegraph_create_page
        (scripted [Inl (TelegraphException ''FLOOD_WAIT_5'')] [Inr ''n'']) account0 world0))) = 0
   \<and> n_page (snd (snd (Telegraph_create_page
        (scripted [Inl (TelegraphException ''FLOOD_WAIT_5'')] [Inr ''n'']) account0 world0))) = 3"
proof -
  let ?E = "scripted [Inl (TelegraphException ''FLOOD_WAIT_5'')] [Inr ''n'']"
  have h1: "0 \<le> retries account0"
    by (simp add: account0_def Telegraph_init_def)
  have f: "flood_wait (TelegraphException ''FLOOD_WAIT_5'') = Some (int 5)"
    by (simp add: startswith_def py_int_def int_space_def strip_def isspace_def unsigned_int_def
        isdigit_def digits_value_def)
  have h2: "\<forall>j<3. \<exists>e W. snd (page_reply ?E (n_page world0 + j)) = Inl e
      \<and> flood_wait e = Some (int W)"
    using f by (auto simp: scripted_def)
  have h3: "\<forall>j. \<exists>t. snd (account_reply ?E j) = Inr t"
    by (simp add: scripted_def)
  show ?thesis
    using h1 floods_end_in_overflow [OF h1 h2 h3]
    by (simp add: account0_def Telegraph_init_def world0_def)
qed

text \<open>
  The claim as it is written fails when the third flood-control error carries a wait of
  60 or more and \<^verbatim>\<open>create_account\<close> raises: three attempts end in flood-control errors, the
  call raises the exception of \<^verbatim>\<open>create_account\<close>, and \<^verbatim>\<open>retries\<close> stays 3.
\<close>

theorem floods_end_in_overflow_counterexample:
  "flood_wait (TelegraphException ''FLOOD_WAIT_5'') = Some 5
   \<and> flood_wait (TelegraphException ''FLOOD_WAIT_60'') = Some 60
   \<and> Telegraph_create_page
       (scripted [Inl (TelegraphException ''FLOOD_WAIT_5''),
                  Inl (TelegraphException ''FLOOD_WAIT_5''),
                  Inl (TelegraphException ''FLOOD_WAIT_60'')]
                 [Inl (OtherException ''ConnectionError'')])
       account0 world0 =
     (Inl (OtherException ''ConnectionError''),
      \<lparr>retries = 3, last_run = 0, access_token = Some ''t''\<rparr>,
      \<lparr>clock = 15, n_page = 3, n_account = 1, n_info = 0, n_owner = 3, n_choice = 0,
       sleeps = [1, 6, 0, 6, 0], starts = [1, 15 / 2, 14]\<rparr>)"
  by (simp add: run_defs)








text \<open>
  C4, as the code has it. The counter is compared with 3 on entry to \<^verbatim>\<open>create_page\<close>
  (line 36), not after the increment of line 52. A flood-control error that takes the
  counter to 3 is therefore followed by the same step as below 3, the sleep of \<open>W + 1\<close>
  seconds or the \<^verbatim>\<open>create_account\<close> call, when the owner of the lock is not \<^verbatim>\<open>WRITER\<close>;
  then the recursive call sets the counter to 0 and raises \<^verbatim>\<open>OverflowError\<close>, without
  another remote \<^verbatim>\<open>createPage\<close> call.
\<close>

theorem flood_at_cap:
  assumes "retries a + 1 = 3"
    and "snd (page_reply E (n_page w)) = Inl e"
    and "flood_wait e = Some (int W)"
    and "owner_seen E (n_owner w) \<noteq> WRITER"
    and "W < 60 \<or> snd (account_reply E (n_account w)) = Inr t"
  shows "Telegraph_create_page E a w =
    (if W < 60 then
       (Inl OverflowError, a\<lparr>retries := 0\<rparr>,
        (attempted E a w)\<lparr>n_owner := n_owner w + 1,
           clock := clock (attempted E a w) + (of_nat W + 1),
           sleeps := sleeps (attempted E a w) @ [of_nat W + 1]\<rparr>)
     else
       (Inl OverflowError, a\<lparr>retries := 0, access_token := Some t\<rparr>,
        (attempted E a w)\<lparr>n_owner := n_owner w + 1,
           clock := clock (attempted E a w) + fst (account_reply E (n_account w)),
           n_account := n_account w + 1\<rparr>))"
proof (cases "W < 60")
  case True
  with assms(1-4) show ?thesis
    by (simp add: create_page_flood flood_block_sleep attempted_fields create_page_overflow)
next
  case False
  with assms(5) have "snd (account_reply E (n_account w)) = Inr t" by simp
  with False assms(1-4) show ?thesis
    by (simp add: create_page_flood flood_block_rotate create_account_ok attempted_fields
        create_page_overflow)
qed

theorem flood_at_cap_witness:
  "retries (account0\<lparr>retries := 2\<rparr>) + 1 = 3
   \<and> flood_wait (TelegraphException ''FLOOD_WAIT_5'') = Some (int 5)
   \<and> flood_wait (TelegraphException ''FLOOD_WAIT_60'') = Some (int 60)
   \<and> Telegraph_create_page
        (scripted [Inl (TelegraphException ''FLOOD_WAIT_5'')] [Inr ''n''])
        (account0\<lparr>retries := 2\<rparr>) world0 =
      (Inl OverflowError, account0,
       world0\<lparr>clock := 15 / 2, n_page := 1, n_owner := 1, sleeps := [1, 6], starts := [1]\<rparr>)
   \<and> Telegraph_create_page
        (scripted [Inl (TelegraphException ''FLOOD_WAIT_60'')] [Inr ''n''])
        (account0\<lparr>retries := 2\<rparr>) world0 =
      (Inl OverflowError, account0\<lparr>access_token := Some ''n''\<rparr>,
       world0\<lparr>clock := 2, n_page := 1, n_account := 1, n_owner := 1, sleeps := [1],
          starts := [1]\<rparr>)"
proof -
  let ?E = "scripted [Inl (TelegraphException ''FLOOD_WAIT_5'')] [Inr ''n'']"
  let ?F = "scripted [Inl (TelegraphException ''FLOOD_WAIT_60'')] [Inr ''n'']"
  let ?a = "account0\<lparr>retries := 2\<rparr>"
  have h1: "retries ?a + 1 = 3" by simp
  have e2: "snd (page_reply ?E (n_page world0)) = Inl (TelegraphException ''FLOOD_WAIT_5'')"
    by (simp add: scripted_def world0_def)
  have f2: "snd (page_reply ?F (n_page world0)) = Inl (TelegraphException ''FLOOD_WAIT_60'')"
    by (simp add: scripted_def world0_def)
  have e3: "flood_wait (TelegraphException ''FLOOD_WAIT_5'') = Some (int 5)"
    by (simp add: startswith_def py_int_def int_space_def strip_def isspace_def unsigned_int_def
        isdigit_def digits_value_def)
  have f3: "flood_wait (TelegraphException ''FLOOD_WAIT_60'') = Some (int 60)"
    by (simp add: startswith_def py_int_def int_space_def strip_def isspace_def unsigned_int_def
        isdigit_def digits_value_def)
  have e4: "owner_seen ?E (n_owner world0) \<noteq> WRITER"
    by (simp add: scripted_def)
  have f4: "owner_seen ?F (n_owner world0) \<noteq> WRITER"
    by (simp add: scripted_def)
  have e5: "(5::nat) < 60 \<or> snd (account_reply ?E (n_account world0)) = Inr ''n''"
    by simp
  have f5: "(60::nat) < 60 \<or> snd (account_reply ?F (n_account world0)) = Inr ''n''"
    by (simp add: scripted_def world0_def)
  have short: "Telegraph_create_page ?E ?a world0 =
      (Inl OverflowError, account0,
       world0\<lparr>clock := 15 / 2, n_page := 1, n_owner := 1, sleeps := [1, 6], starts := [1]\<rparr>)"
    using flood_at_cap [OF h1 e2 e3 e4 e5]
    by (simp add: attempted_fields account0_def Telegraph_init_def world0_def scripted_def
        attempted_def throttled_def super_create_page_def)
  have long: "Telegraph_create_page ?F ?a world0 =
      (Inl OverflowError, account0\<lparr>access_token := Some ''n''\<rparr>,
       world0\<lparr>clock := 2, n_page := 1, n_account := 1, n_owner := 1, sleeps := [1],
          starts := [1]\<rparr>)"
    using flood_at_cap [OF h1 f2 f3 f4 f5]
    by (simp add: attempted_fields account0_def Telegraph_init_def world0_def scripted_def
        attempted_def throttled_def super_create_page_def)
  show ?thesis
    using h1 e3 f3 short long by simp
qed

text \<open>
  The claim as it is written fails: with the counter at 2, a flood-control error with a
  wait of 5 seconds ends in \<^verbatim>\<open>OverflowError\<close> with the counter at 0, but only after the
  lock has been read and \<^verbatim>\<open>time.sleep(6)\<close> has been called (the second entry of
  \<open>sleeps\<close>; the first is the sleep of line 69).
\<close>

theorem flood_at_cap_counterexample:
  "Telegraph_create_page
       (scripted [Inl (TelegraphException ''FLOOD_WAIT_5'')] [Inr ''n''])
       (account0\<lparr>retries := 2\<rparr>) world0 =
     (Inl OverflowError,
      \<lparr>retries = 0, last_run = 0, access_token = Some ''t''\<rparr>,
      \<lparr>clock = 15 / 2, n_page = 1, n_account = 0, n_info = 0, n_owner = 1, n_choice = 0,
       sleeps = [1, 6], starts = [1]\<rparr>)"
  by (simp add: run_defs)

text \<open>
  C10. When an attempt ends in an exception that is not a flood-control error,
  \<^verbatim>\<open>create_page\<close> raises it and leaves \<^verbatim>\<open>retries\<close> as it was at that attempt: line 64 has
  no assignment to it. A later \<^verbatim>\<open>create_page\<close> call on the account (in any environment
  \<open>E'\<close> and world \<open>w'\<close>) starts from that value: when all its attempts end in flood-control
  errors it raises \<^verbatim>\<open>OverflowError\<close> after \<open>3 - retries\<close> remote calls, fewer than 3 when
  the counter was left above 0.
\<close>

theorem other_error_keeps_retries:
  assumes "retries a < 3"
    and "snd (page_reply E (n_page w)) = Inl e"
    and "\<not> is_flood e"
    and "\<forall>j<nat (3 - retries a).
           \<exists>e' W. snd (page_reply E' (n_page w' + j)) = Inl e' \<and> flood_wait e' = Some (int W)"
    and "\<forall>j. \<exists>t. snd (account_reply E' j) = Inr t"
  shows "fst (Telegraph_create_page E a w) = Inl e
    \<and> retries (fst (snd (Telegraph_create_page E a w))) = retries a
    \<and> fst (Telegraph_create_page E' (fst (snd (Telegraph_create_page E a w))) w')
        = Inl OverflowError
    \<and> n_page (snd (snd (Telegraph_create_page E' (fst (snd (Telegraph_create_page E a w))) w')))
        = n_page w' + nat (3 - retries a)"
proof -
  from assms(1-3) have first: "Telegraph_create_page E a w = (Inl e, a, attempted E a w)"
    by (rule create_page_other)
  from assms(4,5) obtain a' w''
    where "Telegraph_create_page E' a w' = (Inl OverflowError, a', w'')"
      "n_page w'' = n_page w' + nat (3 - retries a)"
    using floods_overflow [of E' a "nat (3 - retries a)" w'] by blast
  with first show ?thesis by simp
qed

text \<open>
  The same within one call: a flood-control error, then an error of another kind. The
  counter, 0 on entry, is 1 afterwards.
\<close>

lemma flood_then_other_error:
  assumes "retries a = 0"
    and "snd (page_reply E (n_page w)) = Inl e1" and "flood_wait e1 = Some (int W)" and "W < 60"
    and "snd (page_reply E (n_page w + 1)) = Inl e" and "\<not> is_flood e"
  shows "fst (Telegraph_create_page E a w) = Inl e
    \<and> retries (fst (snd (Telegraph_create_page E a w))) = 1"
proof -
  from assms(1-4) obtain w1
    where r1: "Telegraph_create_page E a w =
        Telegraph_create_page E (a\<lparr>retries := retries a + 1\<rparr>) w1"
      and w1: "n_page w1 = n_page w + 1"
    using flood_round_short [of a E w e1 W] by auto
  let ?a1 = "a\<lparr>retries := retries a + 1\<rparr>"
  from assms(1) have "retries ?a1 < 3" by simp
  moreover from assms(5) w1 have "snd (page_reply E (n_page w1)) = Inl e" by simp
  ultimately have "Telegraph_create_page E ?a1 w1 = (Inl e, ?a1, attempted E ?a1 w1)"
    using assms(6) by (rule create_page_other)
  with r1 assms(1) show ?thesis by simp
qed

theorem other_error_keeps_retries_witness:
  "retries (account0\<lparr>retries := 1\<rparr>) < 3
   \<and> \<not> is_flood (TelegraphException ''PAGE_SAVE_FAILED'')
   \<and> fst (Telegraph_create_page
        (scripted [Inl (TelegraphException ''PAGE_SAVE_FAILED'')] [Inr ''n''])
        (account0\<lparr>retries := 1\<rparr>) world0) = Inl (TelegraphException ''PAGE_SAVE_FAILED'')
   \<and> retries (fst (snd (Telegraph_create_page
        (scripted [Inl (TelegraphException ''PAGE_SAVE_FAILED'')] [Inr ''n''])
        (account0\<lparr>retries := 1\<rparr>) world0))) = 1
   \<and> fst (Telegraph_create_page
        (scripted [Inl (TelegraphException ''FLOOD_WAIT_5'')] [Inr ''n''])
        (fst (snd (Telegraph_create_page
           (scripted [Inl (TelegraphException ''PAGE_SAVE_FAILED'')] [Inr ''n''])
           (account0\<lparr>retries := 1\<rparr>) world0)))
        world0) = Inl OverflowError
   \<and> n_page (snd (snd (Telegraph_create_page
        (scripted [Inl (TelegraphException ''FLOOD_WAIT_5'')] [Inr ''n''])
        (fst (snd (Telegraph_create_page
           (scripted [Inl (TelegraphException ''PAGE_SAVE_FAILED'')] [Inr ''n''])
           (account0\<lparr>retries := 1\<rparr>) world0)))
        world0))) = 2"
proof -
  let ?E = "scripted [Inl (TelegraphException ''PAGE_SAVE_FAILED'')] [Inr ''n'']"
  let ?F = "scripted [Inl (TelegraphException ''FLOOD_WAIT_5'')] [Inr ''n'']"
  let ?a = "account0\<lparr>retries := 1\<rparr>"
  have h2: "retries ?a < 3" by simp
  have h3: "snd (page_reply ?E (n_page world0)) = Inl (TelegraphException ''PAGE_SAVE_FAILED'')"
    by (simp add: scripted_def world0_def)
  have h4: "\<not> is_flood (TelegraphException ''PAGE_SAVE_FAILED'')"
    by (simp add: startswith_def)
  have f: "flood_wait (TelegraphException ''FLOOD_WAIT_5'') = Some (int 5)"
    by (simp add: startswith_def py_int_def int_space_def strip_def isspace_def unsigned_int_def
        isdigit_def digits_value_def)
  have h5: "\<forall>j<nat (3 - retries ?a).
      \<exists>e' W. snd (page_reply ?F (n_page world0 + j)) = Inl e' \<and> flood_wait e' = Some (int W)"
    using f by (auto simp: scripted_def)
  have h6: "\<forall>j. \<exists>t. snd (account_reply ?F j) = Inr t"
    by (simp add: scripted_def)
  show ?thesis
    using h2 h4 other_error_keeps_retries [OF h2 h3 h4 h5 h6]
    by (simp add: world0_def)
qed

subsection \<open>The interval between remote calls\<close>


lemma spaced_Cons:
  "spaced (s # ts) = ((ts = [] \<or> s + 1 \<le> hd ts) \<and> spaced ts)"
  by (cases ts) simp_all




subsection \<open>The pool\<close>

text \<open>
  C6. A pool with no accounts is not valid, has count 0, and its \<^verbatim>\<open>create_page\<close> raises
  \<^verbatim>\<open>TelegraphException('Telegraph token no set!')\<close> at once: the pool and the world are as
  before, so no account was chosen and no remote call made. A pool with accounts draws
  one index with \<^verbatim>\<open>random.choice\<close> and returns what \<^verbatim>\<open>create_page\<close> of the account at that
  index returns; only that account changes. The index drawn is the index used, for
  every index below the count, so the choice among the members is as uniform as the
  draw of \<^verbatim>\<open>random.choice\<close> is.
\<close>

theorem pool_create_page:
  "(accounts api = [] \<longrightarrow>
      \<not> valid api \<and> count api = 0
      \<and> API_create_page E api w = (Inl (TelegraphException ''Telegraph token no set!''), api, w))
   \<and> (accounts api \<noteq> [] \<longrightarrow> choice_index E (n_choice w) (count api) < count api \<longrightarrow>
      valid api
      \<and> API_create_page E api w =
          (fst (Telegraph_create_page E
                 (accounts api ! choice_index E (n_choice w) (count api))
                 (w\<lparr>n_choice := n_choice w + 1\<rparr>)),
           api\<lparr>accounts := (accounts api)
                 [choice_index E (n_choice w) (count api) :=
                    fst (snd (Telegraph_create_page E
                      (accounts api ! choice_index E (n_choice w) (count api))
                      (w\<lparr>n_choice := n_choice w + 1\<rparr>)))]\<rparr>,
           snd (snd (Telegraph_create_page E
                 (accounts api ! choice_index E (n_choice w) (count api))
                 (w\<lparr>n_choice := n_choice w + 1\<rparr>)))))"
  by (simp add: valid_def count_def API_create_page_def Let_def split_beta)

theorem pool_create_page_witness:
  "accounts \<lparr>accounts = []\<rparr> = []
   \<and> \<not> valid \<lparr>accounts = []\<rparr> \<and> count \<lparr>accounts = []\<rparr> = 0
   \<and> API_create_page (scripted [Inr ''url''] [Inr ''n'']) \<lparr>accounts = []\<rparr> world0
       = (Inl (TelegraphException ''Telegraph token no set!''), \<lparr>accounts = []\<rparr>, world0)
   \<and> accounts \<lparr>accounts = [account0, account0\<lparr>access_token := Some ''u''\<rparr>]\<rparr> \<noteq> []
   \<and> choice_index (scripted [Inr ''url''] [Inr ''n'']) (n_choice (world0\<lparr>n_choice := 1\<rparr>))
        (count \<lparr>accounts = [account0, account0\<lparr>access_token := Some ''u''\<rparr>]\<rparr>) = 1
   \<and> API_create_page (scripted [Inr ''url''] [Inr ''n''])
        \<lparr>accounts = [account0, account0\<lparr>access_token := Some ''u''\<rparr>]\<rparr>
        (world0\<lparr>n_choice := 1\<rparr>)
       = (Inr ''url'',
          \<lparr>accounts = [account0, \<lparr>retries = 0, last_run = 3 / 2, access_token = Some ''u''\<rparr>]\<rparr>,
          world0\<lparr>clock := 3 / 2, n_page := 1, n_choice := 2, sleeps := [1], starts := [1]\<rparr>)"
proof -
  let ?E = "scripted [Inr ''url''] [Inr ''n'']"
  let ?p = "\<lparr>accounts = [account0, account0\<lparr>access_token := Some ''u''\<rparr>]\<rparr>"
  let ?w = "world0\<lparr>n_choice := 1\<rparr>"
  have e: "accounts \<lparr>accounts = []\<rparr> = []" by simp
  have n: "accounts ?p \<noteq> []" by simp
  have c: "choice_index ?E (n_choice ?w) (count ?p) = 1"
    by (simp add: scripted_def count_def)
  have c': "choice_index ?E (n_choice ?w) (count ?p) < count ?p"
    by (simp add: scripted_def count_def)
  have run: "Telegraph_create_page ?E (account0\<lparr>access_token := Some ''u''\<rparr>)
      (world0\<lparr>n_choice := 2\<rparr>) =
    (Inr ''url'', \<lparr>retries = 0, last_run = 3 / 2, access_token = Some ''u''\<rparr>,
     world0\<lparr>clock := 3 / 2, n_page := 1, n_choice := 2, sleeps := [1], starts := [1]\<rparr>)"
    by (simp add: run_defs)
  from pool_create_page [of "\<lparr>accounts = []\<rparr>" ?E world0] e
  have empty: "\<not> valid \<lparr>accounts = []\<rparr> \<and> count \<lparr>accounts = []\<rparr> = 0
    \<and> API_create_page ?E \<lparr>accounts = []\<rparr> world0
       = (Inl (TelegraphException ''Telegraph token no set!''), \<lparr>accounts = []\<rparr>, world0)"
    by blast
  from pool_create_page [of ?p ?E ?w] n c'
  have "API_create_page ?E ?p ?w =
          (fst (Telegraph_create_page ?E
                 (accounts ?p ! choice_index ?E (n_choice ?w) (count ?p))
                 (?w\<lparr>n_choice := n_choice ?w + 1\<rparr>)),
           ?p\<lparr>accounts := (accounts ?p)
                 [choice_index ?E (n_choice ?w) (count ?p) :=
                    fst (snd (Telegraph_create_page ?E
                      (accounts ?p ! choice_index ?E (n_choice ?w) (count ?p))
                      (?w\<lparr>n_choice := n_choice ?w + 1\<rparr>)))]\<rparr>,
           snd (snd (Telegraph_create_page ?E
                 (accounts ?p ! choice_index ?E (n_choice ?w) (count ?p))
                 (?w\<lparr>n_choice := n_choice ?w + 1\<rparr>))))"
    by blast
  then have chosen: "API_create_page ?E ?p ?w
       = (Inr ''url'',
          \<lparr>accounts = [account0, \<lparr>retries = 0, last_run = 3 / 2, access_token = Some ''u''\<rparr>]\<rparr>,
          world0\<lparr>clock := 3 / 2, n_page := 1, n_choice := 2, sleeps := [1], starts := [1]\<rparr>)"
    unfolding c using run by (simp add: world0_def numeral_2_eq_2)
  show ?thesis
    using e empty n c chosen by simp
qed

subsection \<open>Building the pool\<close>



lemma API_loop_step:
  "API_loop E (token # rest) accs w =
     API_loop E rest (accs @ (case fst (set_up E token w) of Some a \<Rightarrow> [a] | None \<Rightarrow> []))
       (snd (set_up E token w))"
  by (simp split: prod.splits option.splits)

text \<open>A member holds the token it was given, or the token of a new account.\<close>

lemma set_up_credential:
  "fst (set_up E token w) = Some a \<Longrightarrow>
   retries a = 0 \<and> last_run a = clock w
   \<and> (access_token a = Some (strip token) \<and> length (strip token) = 60
        \<and> returned (snd (info_reply E (n_info w)))
      \<or> (\<exists>k tok. snd (account_reply E k) = Inr tok \<and> access_token a = Some tok))"
  by (auto simp: set_up_def probe_def create_account_def get_account_info_def
      Telegraph_init_def returned_def Let_def
      split: sum.splits exn.splits if_splits)

text \<open>The loop only appends, and at most one account for each token.\<close>

lemma API_loop_appends:
  "\<exists>new. fst (API_loop E tokens accs w) = accs @ new \<and> length new \<le> length tokens"
proof (induction tokens arbitrary: accs w)
  case Nil
  show ?case by simp
next
  case (Cons token rest)
  let ?here = "case fst (set_up E token w) of Some a \<Rightarrow> [a] | None \<Rightarrow> []"
  from Cons.IH [of "accs @ ?here" "snd (set_up E token w)"] obtain new
    where "fst (API_loop E rest (accs @ ?here) (snd (set_up E token w))) = (accs @ ?here) @ new"
      "length new \<le> length rest"
    by blast
  moreover have "length ?here \<le> 1"
    by (simp split: option.splits)
  ultimately have "fst (API_loop E (token # rest) accs w) = accs @ (?here @ new)
      \<and> length (?here @ new) \<le> length (token # rest)"
    by (simp add: API_loop_step del: API_loop.simps)
  then show ?case by blast
qed



subsection \<open>The size of the semaphore\<close>

text \<open>
  C9. The semaphore of \<^verbatim>\<open>TelegraphIfy\<close> is made with \<^verbatim>\<open>max_concurrency\<close> permits: the count
  of the pool when the module has a pool, 10 when it has none. The module has a pool
  exactly when \<^verbatim>\<open>env.TELEGRAPH_TOKEN\<close> is set and not empty and the pool built from its
  comma-separated tokens has at least one account.
\<close>

theorem gate_capacity:
  "max_concurrency (fst (module_api E TELEGRAPH_TOKEN w)) =
     (case fst (module_api E TELEGRAPH_TOKEN w) of Some api \<Rightarrow> count api | None \<Rightarrow> 10)
   \<and> fst (module_api E TELEGRAPH_TOKEN w) =
     (case TELEGRAPH_TOKEN of
        None \<Rightarrow> None
      | Some t \<Rightarrow>
          if t = [] then None
          else if 0 < count (fst (API_init E (Strs (split t CHR '','')) w))
          then Some (fst (API_init E (Strs (split t CHR '','')) w))
          else None)"
  by (simp add: max_concurrency_def module_api_def valid_def count_def split_beta
      split: option.splits)

end
